theory Spec2Isabelle
  imports Main
begin

section \<open>Files, blobs and object URLs\<close>

text \<open>
  The component of \<^verbatim>\<open>src/unnamed/part_000\<close> (function \<^verbatim>\<open>App\<close>) is modelled by explicit
  state passing. A browser \<^verbatim>\<open>File\<close> is its name, its declared media type, its byte length
  and an opaque content; a \<^verbatim>\<open>Blob\<close> is a media type and an opaque content.
\<close>

record jsfile =
  fname :: string
  ftype :: string
  fsize :: nat
  fdata :: nat

record blob =
  btype :: string
  bdata :: nat

text \<open>
  An object URL is a handle. The browser hands out a new one at every
  \<^verbatim>\<open>URL.createObjectURL\<close> call; the two logs record every create call (by its result) and
  every \<^verbatim>\<open>URL.revokeObjectURL\<close> call (by its argument, \<open>None\<close> for \<^verbatim>\<open>null\<close>), so that
  calls can be counted. \<open>downloads\<close> records the clicks on generated download links and
  \<open>now\<close> is the reading of \<^verbatim>\<open>Date.now()\<close>.
\<close>

type_synonym handle = nat

record browser =
  fresh :: handle
  created :: "handle list"
  revoked :: "handle option list"
  downloads :: "(string \<times> handle) list"
  now :: nat

definition createObjectURL :: "browser \<Rightarrow> handle \<times> browser" where
  "createObjectURL w = (fresh w, w\<lparr>fresh := Suc (fresh w), created := created w @ [fresh w]\<rparr>)"

definition revokeObjectURL :: "handle option \<Rightarrow> browser \<Rightarrow> browser" where
  "revokeObjectURL h w = w\<lparr>revoked := revoked w @ [h]\<rparr>"

text \<open>
  The external codec \<^verbatim>\<open>heic2any({blob, toType, quality})\<close> is a parameter of the model:
  a function of the file, the target type and the quality hint that yields the encoded
  blob, or \<open>None\<close> when its promise rejects. The quality hint is given in tenths
  (\<open>2\<close> for \<^verbatim>\<open>0.2\<close>, \<open>9\<close> for \<^verbatim>\<open>0.9\<close>).
\<close>

type_synonym codec = "jsfile \<Rightarrow> string \<Rightarrow> nat \<Rightarrow> blob option"

section \<open>Component state\<close>

text \<open>
  \<^verbatim>\<open>outputFormat\<close> starts as \<^verbatim>\<open>'jpeg'\<close> and is only ever set to the value of one of the two
  options of the select element (\<^verbatim>\<open>jpeg\<close>, \<^verbatim>\<open>png\<close>).
\<close>

datatype output_format = Jpeg | Png

fun format_string :: "output_format \<Rightarrow> string" where
  "format_string Jpeg = ''jpeg''"
| "format_string Png = ''png''"

text \<open>An entry of \<^verbatim>\<open>heicFiles\<close>: the file and its thumbnail URL (\<^verbatim>\<open>null\<close> as \<open>None\<close>).\<close>

record item =
  ifile :: jsfile
  thumbnail :: "handle option"

text \<open>
  An entry of \<^verbatim>\<open>convertedImages\<close>. The \<^verbatim>\<open>id\<close> string \<^verbatim>\<open>`${name}-${Date.now()}`\<close> is kept
  as the pair of its two parts.
\<close>

record converted_image =
  img_id :: "string \<times> nat"
  img_name :: string
  img_url :: handle
  img_blob :: blob
  img_originalFile :: jsfile

text \<open>
  The five \<^verbatim>\<open>useState\<close> cells. The type of the entries of \<^verbatim>\<open>heicFiles\<close> is a parameter:
  they are items here and plain files in \<^verbatim>\<open>src/src/App.jsx\<close>.
\<close>

record 'i app_state =
  heicFiles :: "'i list"
  convertedImages :: "converted_image list"
  outputFormat :: output_format
  loading :: bool
  error :: "string option"

section \<open>Adding files: \<^verbatim>\<open>handleFileChange\<close>\<close>

definition MAX_FILE_SIZE_MB :: nat where
  "MAX_FILE_SIZE_MB = 25"

definition allowed_types :: "string list" where
  "allowed_types = [''image/heic'', ''image/heif'', ''image/x-heic'', ''image/x-heif'']"

text \<open>
  The callback of \<^verbatim>\<open>acceptedFiles.filter\<close> (lines 24-35): it returns whether the file is
  kept and calls \<^verbatim>\<open>setError\<close> on a rejection. \<^verbatim>\<open>MAX_FILE_SIZE_MB\<close> prints as \<^verbatim>\<open>25\<close> in
  the second message.
\<close>

definition validate :: "jsfile \<Rightarrow> 'i app_state \<Rightarrow> bool \<times> 'i app_state" where
  "validate f s =
     (if ftype f \<notin> set allowed_types then
        (False, s\<lparr>error := Some (''Unsupported file type: '' @ fname f @
                                  ''. Only HEIC/HEIF files are allowed.'')\<rparr>)
      else if fsize f > MAX_FILE_SIZE_MB * 1024 * 1024 then
        (False, s\<lparr>error := Some (''File '' @ fname f @
                                  '' is too large. Max file size is 25MB.'')\<rparr>)
      else (True, s))"

text \<open>\<^verbatim>\<open>Array.prototype.filter\<close> with that callback, in list order.\<close>

fun filter_files :: "jsfile list \<Rightarrow> 'i app_state \<Rightarrow> jsfile list \<times> 'i app_state" where
  "filter_files [] s = ([], s)"
| "filter_files (f # fs) s =
     (case validate f s of (keep, s1) \<Rightarrow>
        (case filter_files fs s1 of (rest, s2) \<Rightarrow>
           (if keep then f # rest else rest, s2)))"

text \<open>
  The callback of \<^verbatim>\<open>newFiles.map\<close> (lines 36-55). When the codec succeeds, three object
  URLs are created: one for the file and one for the thumbnail blob inside the two
  \<^verbatim>\<open>console.log\<close> arguments (lines 43 and 44), and the one that is stored (line 47).
  When it fails the item has no thumbnail. The promises of \<^verbatim>\<open>Promise.all\<close> are run here
  one after the other, in list order.
\<close>

definition make_item :: "codec \<Rightarrow> jsfile \<Rightarrow> browser \<Rightarrow> item \<times> browser" where
  "make_item heic2any f w =
     (case heic2any f ''image/jpeg'' 2 of
        Some thumbnailBlob \<Rightarrow>
          (case createObjectURL w of (logged1, w1) \<Rightarrow>
             (case createObjectURL w1 of (logged2, w2) \<Rightarrow>
                (case createObjectURL w2 of (url, w3) \<Rightarrow>
                   (\<lparr>ifile = f, thumbnail = Some url\<rparr>, w3))))
      | None \<Rightarrow> (\<lparr>ifile = f, thumbnail = None\<rparr>, w))"

fun filesWithThumbnails :: "codec \<Rightarrow> jsfile list \<Rightarrow> browser \<Rightarrow> item list \<times> browser" where
  "filesWithThumbnails heic2any [] w = ([], w)"
| "filesWithThumbnails heic2any (f # fs) w =
     (case make_item heic2any f w of (it, w1) \<Rightarrow>
        (case filesWithThumbnails heic2any fs w1 of (its, w2) \<Rightarrow> (it # its, w2)))"

definition handleFileChange ::
  "codec \<Rightarrow> jsfile list \<Rightarrow> browser \<times> item app_state \<Rightarrow> browser \<times> item app_state" where
  "handleFileChange heic2any acceptedFiles ws =
     (case ws of (w, s) \<Rightarrow>
        (case filter_files acceptedFiles (s\<lparr>error := None\<rparr>) of (newFiles, s1) \<Rightarrow>
           (case filesWithThumbnails heic2any newFiles w of (its, w1) \<Rightarrow>
              (w1, s1\<lparr>heicFiles := heicFiles s1 @ its\<rparr>))))"

section \<open>Converting: \<^verbatim>\<open>convertImages\<close>\<close>

text \<open>
  The output name is \<^verbatim>\<open>name.replace(/\.(heic|heif)$/i, `.${outputFormat}`)\<close> (line 90).
  The pattern is anchored at the end of the name and consumes five characters, so it can
  only match the last five characters, and \<^verbatim>\<open>replace\<close> then swaps them for the dot and
  the format (neither \<^verbatim>\<open>jpeg\<close> nor \<^verbatim>\<open>png\<close> holds a \<^verbatim>\<open>$\<close> pattern). With the \<^verbatim>\<open>i\<close> flag
  a character of the name matches a character of the pattern when both have the same
  canonical form: the letters \<^verbatim>\<open>a\<close> to \<^verbatim>\<open>z\<close> are canonicalised to upper case, and no other
  character is canonicalised to an ASCII letter or to the dot.
\<close>

definition canonicalize :: "char \<Rightarrow> char" where
  "canonicalize c =
     (case map_of (zip ''abcdefghijklmnopqrstuvwxyz'' ''ABCDEFGHIJKLMNOPQRSTUVWXYZ'') c of
        Some u \<Rightarrow> u
      | None \<Rightarrow> c)"

text \<open>A name ends with a given suffix: exactly, or up to the case of letters.\<close>

definition ends_with :: "string \<Rightarrow> string \<Rightarrow> bool" where
  "ends_with pat n = (length pat \<le> length n \<and> drop (length n - length pat) n = pat)"

definition ends_with_ci :: "string \<Rightarrow> string \<Rightarrow> bool" where
  "ends_with_ci pat n =
     (length pat \<le> length n \<and>
      map canonicalize (drop (length n - length pat) n) = map canonicalize pat)"

definition source_ext :: "string \<Rightarrow> bool" where
  "source_ext n = (ends_with_ci ''.heic'' n \<or> ends_with_ci ''.heif'' n)"

definition output_name :: "output_format \<Rightarrow> string \<Rightarrow> string" where
  "output_name fmt n =
     (if source_ext n then take (length n - 5) n @ ''.'' @ format_string fmt else n)"

text \<open>
  The body of the \<^verbatim>\<open>for\<close> loop (lines 79-98) on the accumulator: the browser, the
  component state (only \<^verbatim>\<open>setError\<close> touches it) and \<^verbatim>\<open>newConvertedImages\<close>.
\<close>

definition convert_item ::
  "codec \<Rightarrow> output_format \<Rightarrow> item \<Rightarrow> browser \<times> item app_state \<times> converted_image list \<Rightarrow>
     browser \<times> item app_state \<times> converted_image list" where
  "convert_item heic2any fmt it acc =
     (case acc of (w, s, newConvertedImages) \<Rightarrow>
        (case heic2any (ifile it) (''image/'' @ format_string fmt) 9 of
           Some convertedBlob \<Rightarrow>
             (case createObjectURL w of (url, w1) \<Rightarrow>
                (w1, s, newConvertedImages @
                   [\<lparr>img_id = (fname (ifile it), now w1),
                     img_name = output_name fmt (fname (ifile it)),
                     img_url = url,
                     img_blob = convertedBlob,
                     img_originalFile = ifile it\<rparr>]))
         | None \<Rightarrow>
             (w, s\<lparr>error := Some (''Failed to convert '' @ fname (ifile it) @
                                   ''. Please try again.'')\<rparr>,
              newConvertedImages)))"

fun convert_loop ::
  "codec \<Rightarrow> output_format \<Rightarrow> item list \<Rightarrow> browser \<times> item app_state \<times> converted_image list \<Rightarrow>
     browser \<times> item app_state \<times> converted_image list" where
  "convert_loop heic2any fmt [] acc = acc"
| "convert_loop heic2any fmt (it # its) acc =
     convert_loop heic2any fmt its (convert_item heic2any fmt it acc)"

definition convertImages :: "codec \<Rightarrow> browser \<times> item app_state \<Rightarrow> browser \<times> item app_state" where
  "convertImages heic2any ws =
     (case ws of (w, s) \<Rightarrow>
        (case convert_loop heic2any (outputFormat s) (heicFiles s)
                (w, s\<lparr>loading := True, error := None, convertedImages := []\<rparr>, []) of
           (w1, s1, newConvertedImages) \<Rightarrow>
             (w1, s1\<lparr>convertedImages := newConvertedImages, loading := False\<rparr>)))"

section \<open>Clearing and cleaning up\<close>

text \<open>\<^verbatim>\<open>forEach\<close> over a list of URLs, revoking each.\<close>

definition revoke_all :: "handle option list \<Rightarrow> browser \<Rightarrow> browser" where
  "revoke_all hs w = foldl (\<lambda>w' h. revokeObjectURL h w') w hs"

text \<open>The click handler of the Clear All button (lines 176-183).\<close>

definition clearAll :: "browser \<times> item app_state \<Rightarrow> browser \<times> item app_state" where
  "clearAll ws =
     (case ws of (w, s) \<Rightarrow>
        (revoke_all (map (\<lambda>img. Some (img_url img)) (convertedImages s))
           (revoke_all (map thumbnail (heicFiles s)) w),
         s\<lparr>heicFiles := [], convertedImages := [], error := None\<rparr>))"

text \<open>
  The function returned by the effect of lines 15-20, for the render that showed state
  \<open>s\<close>: it revokes the thumbnail of every item and the URL of every converted image of
  that render.
\<close>

definition cleanup :: "item app_state \<Rightarrow> browser \<Rightarrow> browser" where
  "cleanup s w =
     revoke_all (map (\<lambda>img. Some (img_url img)) (convertedImages s))
       (revoke_all (map thumbnail (heicFiles s)) w)"

text \<open>
  The effect depends on \<^verbatim>\<open>[heicFiles, convertedImages]\<close>. React runs the cleanup of the
  previous render whenever a committed render holds, in either cell, an array that is not
  the very same object as before, and every \<^verbatim>\<open>setHeicFiles\<close> and \<^verbatim>\<open>setConvertedImages\<close>
  call of this component passes a newly built array. So the cleanup of the render in which
  a handler was started runs once the handler has replaced a list: after
  \<^verbatim>\<open>handleFileChange\<close> and after Clear All, and in \<^verbatim>\<open>convertImages\<close> both when the list has
  been emptied (the handler is then suspended at its first \<^verbatim>\<open>await\<close>) and when the new list
  has been stored. The three functions below are the handlers together with these runs
  of the cleanup.
\<close>

definition rendered_add ::
  "codec \<Rightarrow> jsfile list \<Rightarrow> browser \<times> item app_state \<Rightarrow> browser \<times> item app_state" where
  "rendered_add heic2any acceptedFiles ws =
     (case ws of (w, s) \<Rightarrow>
        (case handleFileChange heic2any acceptedFiles (w, s) of (w1, s1) \<Rightarrow>
           (cleanup s w1, s1)))"

definition rendered_convert :: "codec \<Rightarrow> browser \<times> item app_state \<Rightarrow> browser \<times> item app_state" where
  "rendered_convert heic2any ws =
     (case ws of (w, s) \<Rightarrow>
        (case convert_loop heic2any (outputFormat s) (heicFiles s)
                (cleanup s w, s\<lparr>loading := True, error := None, convertedImages := []\<rparr>, []) of
           (w1, s1, newConvertedImages) \<Rightarrow>
             (cleanup s1 w1, s1\<lparr>convertedImages := newConvertedImages, loading := False\<rparr>)))"

definition rendered_clear :: "browser \<times> item app_state \<Rightarrow> browser \<times> item app_state" where
  "rendered_clear ws =
     (case ws of (w, s) \<Rightarrow>
        (case clearAll (w, s) of (w1, s1) \<Rightarrow> (cleanup s w1, s1)))"

text \<open>
  The two parts of \<open>rendered_convert\<close>. The first ends when the handler is suspended at
  its first \<^verbatim>\<open>await\<close>: lines 73-75 have run and React has committed the render with the
  emptied list, running the cleanup of the render before. The second is the rest of the
  run: the loop, lines 100-101 and the cleanup run that the new list causes.
\<close>

definition rendered_convert_start :: "browser \<times> item app_state \<Rightarrow> browser \<times> item app_state" where
  "rendered_convert_start ws =
     (case ws of (w, s) \<Rightarrow>
        (cleanup s w, s\<lparr>loading := True, error := None, convertedImages := []\<rparr>))"

definition rendered_convert_rest ::
  "codec \<Rightarrow> browser \<times> item app_state \<Rightarrow> browser \<times> item app_state" where
  "rendered_convert_rest heic2any ws =
     (case ws of (w, s) \<Rightarrow>
        (case convert_loop heic2any (outputFormat s) (heicFiles s) (w, s, []) of
           (w1, s1, newConvertedImages) \<Rightarrow>
             (cleanup s1 w1, s1\<lparr>convertedImages := newConvertedImages, loading := False\<rparr>)))"

section \<open>Downloading\<close>

text \<open>\<^verbatim>\<open>downloadImage\<close>: a click on a link to the image's URL, saved under its name.\<close>

definition downloadImage :: "converted_image \<Rightarrow> browser \<Rightarrow> browser" where
  "downloadImage img w = w\<lparr>downloads := downloads w @ [(img_name img, img_url img)]\<rparr>"

text \<open>
  \<^verbatim>\<open>downloadAllImages\<close> (lines 113-136, and word for word lines 81-104 of
  \<^verbatim>\<open>src/src/App.jsx\<close>). The external archive writer is a parameter: it is given the
  \<^verbatim>\<open>zip.file(name, blob)\<close> calls in order and yields the archive blob, or \<open>None\<close> when the
  promise of \<^verbatim>\<open>generateAsync\<close> rejects.
\<close>

type_synonym archive_writer = "(string \<times> blob) list \<Rightarrow> blob option"

definition zip_entries :: "converted_image list \<Rightarrow> (string \<times> blob) list" where
  "zip_entries images = map (\<lambda>img. (img_name img, img_blob img)) images"

definition downloadAllImages ::
  "archive_writer \<Rightarrow> browser \<times> 'i app_state \<Rightarrow> browser \<times> 'i app_state" where
  "downloadAllImages generateAsync ws =
     (case ws of (w, s) \<Rightarrow>
        if convertedImages s = [] then (w, s)
        else
          (case generateAsync (zip_entries (convertedImages s)) of
             Some content \<Rightarrow>
               (case createObjectURL w of (href, w1) \<Rightarrow>
                  (w1\<lparr>downloads := downloads w1 @ [(''converted-images.zip'', href)]\<rparr>,
                   s\<lparr>loading := True\<rparr>\<lparr>loading := False\<rparr>))
           | None \<Rightarrow>
               (w, s\<lparr>loading := True\<rparr>
                     \<lparr>error := Some ''Failed to create zip file for download.''\<rparr>
                     \<lparr>loading := False\<rparr>)))"

section \<open>The component of \<^verbatim>\<open>src/src/App.jsx\<close>\<close>

text \<open>
  The second file holds the same component without thumbnails, without the Clear All
  button and without the effect: \<^verbatim>\<open>heicFiles\<close> holds the files themselves, and no code of
  that file calls \<^verbatim>\<open>URL.revokeObjectURL\<close>. Its functions carry the suffix \<open>_jsx\<close>;
  \<open>downloadAllImages\<close> above serves both files.
\<close>

definition validate_jsx :: "jsfile \<Rightarrow> 'i app_state \<Rightarrow> bool \<times> 'i app_state" where
  "validate_jsx f s =
     (if ftype f \<noteq> ''image/heic'' \<and> ftype f \<noteq> ''image/heif'' then
        (False, s\<lparr>error := Some (''Unsupported file type: '' @ fname f @
                                  ''. Only HEIC/HEIF files are allowed.'')\<rparr>)
      else if fsize f > MAX_FILE_SIZE_MB * 1024 * 1024 then
        (False, s\<lparr>error := Some (''File '' @ fname f @
                                  '' is too large. Max file size is 25MB.'')\<rparr>)
      else (True, s))"

fun filter_files_jsx :: "jsfile list \<Rightarrow> 'i app_state \<Rightarrow> jsfile list \<times> 'i app_state" where
  "filter_files_jsx [] s = ([], s)"
| "filter_files_jsx (f # fs) s =
     (case validate_jsx f s of (keep, s1) \<Rightarrow>
        (case filter_files_jsx fs s1 of (rest, s2) \<Rightarrow>
           (if keep then f # rest else rest, s2)))"

definition handleFileChange_jsx ::
  "jsfile list \<Rightarrow> browser \<times> jsfile app_state \<Rightarrow> browser \<times> jsfile app_state" where
  "handleFileChange_jsx acceptedFiles ws =
     (case ws of (w, s) \<Rightarrow>
        (case filter_files_jsx acceptedFiles (s\<lparr>error := None\<rparr>) of (newFiles, s1) \<Rightarrow>
           (w, s1\<lparr>heicFiles := heicFiles s1 @ newFiles\<rparr>)))"

text \<open>\<^verbatim>\<open>name.replace(/\.heic$/, `.${outputFormat}`)\<close> (line 58): lower case only.\<close>

definition output_name_jsx :: "output_format \<Rightarrow> string \<Rightarrow> string" where
  "output_name_jsx fmt n =
     (if ends_with ''.heic'' n then take (length n - 5) n @ ''.'' @ format_string fmt else n)"

definition convert_item_jsx ::
  "codec \<Rightarrow> output_format \<Rightarrow> jsfile \<Rightarrow> browser \<times> jsfile app_state \<times> converted_image list \<Rightarrow>
     browser \<times> jsfile app_state \<times> converted_image list" where
  "convert_item_jsx heic2any fmt f acc =
     (case acc of (w, s, newConvertedImages) \<Rightarrow>
        (case heic2any f (''image/'' @ format_string fmt) 9 of
           Some convertedBlob \<Rightarrow>
             (case createObjectURL w of (url, w1) \<Rightarrow>
                (w1, s, newConvertedImages @
                   [\<lparr>img_id = (fname f, now w1),
                     img_name = output_name_jsx fmt (fname f),
                     img_url = url,
                     img_blob = convertedBlob,
                     img_originalFile = f\<rparr>]))
         | None \<Rightarrow>
             (w, s\<lparr>error := Some (''Failed to convert '' @ fname f @
                                   ''. Please try again.'')\<rparr>,
              newConvertedImages)))"

fun convert_loop_jsx ::
  "codec \<Rightarrow> output_format \<Rightarrow> jsfile list \<Rightarrow> browser \<times> jsfile app_state \<times> converted_image list \<Rightarrow>
     browser \<times> jsfile app_state \<times> converted_image list" where
  "convert_loop_jsx heic2any fmt [] acc = acc"
| "convert_loop_jsx heic2any fmt (f # fs) acc =
     convert_loop_jsx heic2any fmt fs (convert_item_jsx heic2any fmt f acc)"

definition convertImages_jsx ::
  "codec \<Rightarrow> browser \<times> jsfile app_state \<Rightarrow> browser \<times> jsfile app_state" where
  "convertImages_jsx heic2any ws =
     (case ws of (w, s) \<Rightarrow>
        (case convert_loop_jsx heic2any (outputFormat s) (heicFiles s)
                (w, s\<lparr>loading := True, error := None, convertedImages := []\<rparr>, []) of
           (w1, s1, newConvertedImages) \<Rightarrow>
             (w1, s1\<lparr>convertedImages := newConvertedImages, loading := False\<rparr>)))"

section \<open>Concrete runs\<close>

text \<open>
  The browser before any call, the initial state of the component (the arguments of the
  \<^verbatim>\<open>useState\<close> calls), and the files, codecs and archive writers of the examples below.
\<close>

definition browser0 :: browser where
  "browser0 = \<lparr>fresh = 0, created = [], revoked = [], downloads = [], now = 0\<rparr>"

definition initial :: "'i app_state" where
  "initial = \<lparr>heicFiles = [], convertedImages = [], outputFormat = Jpeg,
              loading = False, error = None\<rparr>"

definition heic_file :: "string \<Rightarrow> nat \<Rightarrow> jsfile" where
  "heic_file n k = \<lparr>fname = n, ftype = ''image/heic'', fsize = 2 * 1024 * 1024, fdata = k\<rparr>"

definition codec_failing :: "string list \<Rightarrow> codec" where
  "codec_failing bad f toType quality =
     (if fname f \<in> set bad then None else Some \<lparr>btype = toType, bdata = fdata f\<rparr>)"

definition writer_ok :: archive_writer where
  "writer_ok entries = Some \<lparr>btype = ''application/zip'', bdata = length entries\<rparr>"

definition writer_failing :: archive_writer where
  "writer_failing entries = None"

text \<open>
  Three accepted files with their thumbnails; two files of the same name from two
  folders; and a HEIF file from a camera that names its files \<^verbatim>\<open>.HIF\<close>.
\<close>

definition batch3 :: "browser \<times> item app_state" where
  "batch3 = handleFileChange (codec_failing [])
     [heic_file ''a.heic'' 1, heic_file ''b.heic'' 2, heic_file ''c.HEIF'' 3] (browser0, initial)"

definition same_names :: "browser \<times> item app_state" where
  "same_names = handleFileChange (codec_failing [])
     [heic_file ''IMG_0001.heic'' 1, heic_file ''IMG_0001.heic'' 2] (browser0, initial)"

definition hif_file :: jsfile where
  "hif_file = \<lparr>fname = ''IMG_0001.HIF'', ftype = ''image/heif'', fsize = 2 * 1024 * 1024, fdata = 7\<rparr>"

definition typed_file :: "string \<Rightarrow> string \<Rightarrow> nat \<Rightarrow> jsfile" where
  "typed_file n t k = \<lparr>fname = n, ftype = t, fsize = k, fdata = 9\<rparr>"

text \<open>
  One valid file is added, converted and cleared, by the handlers alone and with the runs
  of the cleanup; and a second conversion run follows a first one, in both files.
\<close>

definition one_file :: "browser \<times> item app_state" where
  "one_file = handleFileChange (codec_failing []) [heic_file ''a.heic'' 1] (browser0, initial)"

definition one_file_rendered :: "browser \<times> item app_state" where
  "one_file_rendered = rendered_add (codec_failing []) [heic_file ''a.heic'' 1] (browser0, initial)"

definition one_file_jsx :: "browser \<times> jsfile app_state" where
  "one_file_jsx = handleFileChange_jsx [heic_file ''a.heic'' 1] (browser0, initial)"

text \<open>The state after that file has been added and converted once, cleanup runs included.\<close>

definition first_run :: "browser \<times> item app_state" where
  "first_run = rendered_convert (codec_failing []) one_file_rendered"

section \<open>Predicates of the statements\<close>

text \<open>What the validation decides, stated on the file alone.\<close>

definition accepts :: "jsfile \<Rightarrow> bool" where
  "accepts f = (ftype f \<in> set allowed_types \<and> fsize f \<le> 25 * 1024 * 1024)"

text \<open>Whether the codec rejects the full-quality conversion of a file to a format.\<close>

definition conversion_fails :: "codec \<Rightarrow> output_format \<Rightarrow> jsfile \<Rightarrow> bool" where
  "conversion_fails heic2any fmt f = (heic2any f (''image/'' @ format_string fmt) 9 = None)"

section \<open>Validation\<close>

lemma validate_accepts: "fst (validate f s) = accepts f"
  by (simp add: validate_def accepts_def MAX_FILE_SIZE_MB_def not_less)

lemma validate_keeps_lists:
  "heicFiles (snd (validate f s)) = heicFiles s \<and>
   convertedImages (snd (validate f s)) = convertedImages s"
  by (simp add: validate_def)

lemma filter_files_fst: "fst (filter_files fs s) = filter accepts fs"
proof (induction fs arbitrary: s)
  case Nil
  show ?case by simp
next
  case (Cons f fs)
  have "fst (validate f s) = accepts f" by (rule validate_accepts)
  with Cons.IH [of "snd (validate f s)"] show ?case
    by (simp add: split_beta)
qed

lemma filter_files_heicFiles: "heicFiles (snd (filter_files fs s)) = heicFiles s"
proof (induction fs arbitrary: s)
  case Nil
  show ?case by simp
next
  case (Cons f fs)
  from Cons.IH [of "snd (validate f s)"] validate_keeps_lists [of f s] show ?case
    by (simp add: split_beta)
qed

lemma make_item_file: "ifile (fst (make_item heic2any f w)) = f"
  by (simp add: make_item_def split_beta split: option.splits)

lemma filesWithThumbnails_files:
  "map ifile (fst (filesWithThumbnails heic2any fs w)) = fs"
  by (induction fs arbitrary: w) (simp_all add: split_beta make_item_file)

lemma handleFileChange_files:
  "map ifile (heicFiles (snd (handleFileChange heic2any fs (w, s)))) =
     map ifile (heicFiles s) @ filter accepts fs"
proof -
  have "heicFiles (snd (filter_files fs (s\<lparr>error := None\<rparr>))) = heicFiles s"
    by (simp add: filter_files_heicFiles)
  moreover have "fst (filter_files fs (s\<lparr>error := None\<rparr>)) = filter accepts fs"
    by (rule filter_files_fst)
  ultimately show ?thesis
    by (simp add: handleFileChange_def split_beta filesWithThumbnails_files)
qed

section \<open>The conversion loop\<close>

text \<open>Revoking a list of URLs appends it to the log of revoke calls.\<close>

lemma revoke_all_log: "revoke_all hs w = w\<lparr>revoked := revoked w @ hs\<rparr>"
  unfolding revoke_all_def
  by (induction hs arbitrary: w) (simp_all add: revokeObjectURL_def)

text \<open>The two outcomes of one pass through the loop body.\<close>

lemma convert_item_fail:
  "conversion_fails h fmt (ifile it) \<Longrightarrow>
     convert_item h fmt it (w, s, new) =
       (w, s\<lparr>error := Some (''Failed to convert '' @ fname (ifile it) @ ''. Please try again.'')\<rparr>, new)"
  by (simp add: convert_item_def conversion_fails_def)

lemma convert_item_ok:
  "\<not> conversion_fails h fmt (ifile it) \<Longrightarrow>
     convert_item h fmt it (w, s, new) =
       (w\<lparr>fresh := Suc (fresh w), created := created w @ [fresh w]\<rparr>, s,
        new @ [\<lparr>img_id = (fname (ifile it), now w),
                 img_name = output_name fmt (fname (ifile it)),
                 img_url = fresh w,
                 img_blob = the (h (ifile it) (''image/'' @ format_string fmt) 9),
                 img_originalFile = ifile it\<rparr>])"
  by (auto simp: convert_item_def conversion_fails_def createObjectURL_def)

text \<open>
  What the loop leaves in each part of its accumulator: no revoke call, one converted image
  per file that converts (in list order), the message of the last failing file, and one
  create call per converted image.
\<close>

lemma convert_loop_revoked:
  "revoked (fst (convert_loop h fmt its (w, s, new))) = revoked w"
  by (induction its arbitrary: w s new)
    (simp_all add: convert_item_def createObjectURL_def split_beta split: option.splits)

lemma convert_loop_names:
  "map img_name (snd (snd (convert_loop h fmt its (w, s, new)))) =
     map img_name new @
     map (\<lambda>it. output_name fmt (fname (ifile it)))
       (filter (\<lambda>it. \<not> conversion_fails h fmt (ifile it)) its)"
proof (induction its arbitrary: w s new)
  case Nil
  show ?case by simp
next
  case (Cons it its)
  show ?case
  proof (cases "conversion_fails h fmt (ifile it)")
    case True
    then show ?thesis by (simp add: convert_item_fail Cons.IH)
  next
    case False
    then show ?thesis by (simp add: convert_item_ok Cons.IH)
  qed
qed

lemma convert_loop_originals:
  "map img_originalFile (snd (snd (convert_loop h fmt its (w, s, new)))) =
     map img_originalFile new @
     map ifile (filter (\<lambda>it. \<not> conversion_fails h fmt (ifile it)) its)"
  by (induction its arbitrary: w s new)
    (simp_all add: convert_item_def conversion_fails_def split_beta split: option.splits)

lemma convert_loop_state:
  "fst (snd (convert_loop h fmt its (w, s, new))) =
     s\<lparr>error := (case filter (\<lambda>it. conversion_fails h fmt (ifile it)) its of
                    [] \<Rightarrow> error s
                  | f # fs \<Rightarrow> Some (''Failed to convert '' @ fname (ifile (last (f # fs))) @
                                     ''. Please try again.''))\<rparr>"
proof (induction its arbitrary: w s new)
  case Nil
  show ?case by simp
next
  case (Cons it its)
  show ?case
  proof (cases "conversion_fails h fmt (ifile it)")
    case True
    then show ?thesis by (simp add: convert_item_fail Cons.IH split: list.splits)
  next
    case False
    then show ?thesis by (simp add: convert_item_ok Cons.IH)
  qed
qed

lemma convert_loop_created:
  "created (fst (convert_loop h fmt its (w, s, new))) =
     created w @ [fresh w ..< fresh w + length (filter (\<lambda>it. \<not> conversion_fails h fmt (ifile it)) its)] \<and>
   fresh (fst (convert_loop h fmt its (w, s, new))) =
     fresh w + length (filter (\<lambda>it. \<not> conversion_fails h fmt (ifile it)) its)"
proof (induction its arbitrary: w s new)
  case Nil
  show ?case by simp
next
  case (Cons it its)
  show ?case
  proof (cases "conversion_fails h fmt (ifile it)")
    case True
    then show ?thesis by (simp add: convert_item_fail Cons.IH)
  next
    case False
    then show ?thesis by (simp add: convert_item_ok Cons.IH upt_rec)
  qed
qed

section \<open>A conversion run\<close>

lemma convertImages_result:
  "convertImages h (w, s) =
     (fst (convert_loop h (outputFormat s) (heicFiles s)
             (w, s\<lparr>loading := True, error := None, convertedImages := []\<rparr>, [])),
      (fst (snd (convert_loop h (outputFormat s) (heicFiles s)
             (w, s\<lparr>loading := True, error := None, convertedImages := []\<rparr>, []))))
        \<lparr>convertedImages :=
           snd (snd (convert_loop h (outputFormat s) (heicFiles s)
             (w, s\<lparr>loading := True, error := None, convertedImages := []\<rparr>, []))),
         loading := False\<rparr>)"
  by (simp add: convertImages_def split_beta)

lemma convertImages_names:
  "map img_name (convertedImages (snd (convertImages h (w, s)))) =
     map (\<lambda>it. output_name (outputFormat s) (fname (ifile it)))
       (filter (\<lambda>it. \<not> conversion_fails h (outputFormat s) (ifile it)) (heicFiles s))"
  by (simp add: convertImages_result convert_loop_names)

lemma convertImages_originals:
  "map img_originalFile (convertedImages (snd (convertImages h (w, s)))) =
     map ifile (filter (\<lambda>it. \<not> conversion_fails h (outputFormat s) (ifile it)) (heicFiles s))"
  by (simp add: convertImages_result convert_loop_originals)

lemma convertImages_error:
  "error (snd (convertImages h (w, s))) =
     (case filter (\<lambda>it. conversion_fails h (outputFormat s) (ifile it)) (heicFiles s) of
        [] \<Rightarrow> None
      | f # fs \<Rightarrow> Some (''Failed to convert '' @ fname (ifile (last (f # fs))) @
                         ''. Please try again.''))"
  by (simp add: convertImages_result convert_loop_state split: list.splits)

lemma convertImages_keeps:
  "heicFiles (snd (convertImages h (w, s))) = heicFiles s \<and>
   outputFormat (snd (convertImages h (w, s))) = outputFormat s \<and>
   loading (snd (convertImages h (w, s))) = False"
  by (simp add: convertImages_result convert_loop_state)

lemma convertImages_browser:
  "revoked (fst (convertImages h (w, s))) = revoked w \<and>
   created (fst (convertImages h (w, s))) =
     created w @ [fresh w ..< fresh w + length (convertedImages (snd (convertImages h (w, s))))]"
proof -
  have "length (convertedImages (snd (convertImages h (w, s)))) =
        length (map img_name (convertedImages (snd (convertImages h (w, s)))))"
    by simp
  also have "\<dots> = length (filter (\<lambda>it. \<not> conversion_fails h (outputFormat s) (ifile it)) (heicFiles s))"
    by (simp only: convertImages_names length_map)
  finally show ?thesis
    by (simp add: convertImages_result convert_loop_revoked convert_loop_created)
qed

section \<open>Output names\<close>

lemma canonicalize_letters:
  "canonicalize CHR ''.'' = CHR ''.''" "canonicalize CHR ''h'' = CHR ''H''"
  "canonicalize CHR ''e'' = CHR ''E''" "canonicalize CHR ''i'' = CHR ''I''"
  "canonicalize CHR ''c'' = CHR ''C''" "canonicalize CHR ''f'' = CHR ''F''"
  "canonicalize CHR ''j'' = CHR ''J''" "canonicalize CHR ''p'' = CHR ''P''"
  "canonicalize CHR ''g'' = CHR ''G''" "canonicalize CHR ''n'' = CHR ''N''"
  by (simp_all add: canonicalize_def)

lemma not_source_ext_jpeg: "\<not> source_ext (stem @ ''.jpeg'')"
  by (simp add: source_ext_def ends_with_ci_def canonicalize_letters)

lemma not_source_ext_png: "\<not> source_ext (stem @ ''.png'')"
proof (cases stem rule: rev_cases)
  case Nil
  then show ?thesis by (simp add: source_ext_def ends_with_ci_def)
next
  case (snoc ys c)
  then show ?thesis by (simp add: source_ext_def ends_with_ci_def canonicalize_letters)
qed

lemma not_source_ext_format: "\<not> source_ext (stem @ ''.'' @ format_string fmt)"
  using not_source_ext_jpeg [of stem] not_source_ext_png [of stem] by (cases fmt) simp_all

lemma output_name_replaced:
  assumes "source_ext n"
  shows "ends_with (''.'' @ format_string fmt) (output_name fmt n) \<and>
         \<not> source_ext (output_name fmt n)"
proof -
  have out: "output_name fmt n = take (length n - 5) n @ ''.'' @ format_string fmt"
    using assms by (simp add: output_name_def)
  have "ends_with (''.'' @ format_string fmt) (take (length n - 5) n @ ''.'' @ format_string fmt)"
    by (simp add: ends_with_def)
  with out not_source_ext_format [of "take (length n - 5) n" fmt] show ?thesis
    by simp
qed

lemma convert_loop_name_of:
  assumes "\<forall>img \<in> set new. img_name img = output_name fmt (fname (img_originalFile img))"
  shows "\<forall>img \<in> set (snd (snd (convert_loop h fmt its (w, s, new)))).
           img_name img = output_name fmt (fname (img_originalFile img))"
  using assms
proof (induction its arbitrary: w s new)
  case Nil
  then show ?case by simp
next
  case (Cons it its)
  show ?case
  proof (cases "conversion_fails h fmt (ifile it)")
    case True
    with Cons show ?thesis by (simp add: convert_item_fail)
  next
    case False
    with Cons.prems show ?thesis
      by (simp only: convert_loop.simps convert_item_ok [OF False]) (rule Cons.IH, simp)
  qed
qed

section \<open>Evaluating concrete runs\<close>

lemmas run_defs = handleFileChange_def validate_def allowed_types_def MAX_FILE_SIZE_MB_def
  make_item_def createObjectURL_def convertImages_def convert_item_def
  codec_failing_def heic_file_def hif_file_def typed_file_def browser0_def initial_def

lemmas name_defs = output_name_def source_ext_def ends_with_ci_def ends_with_def canonicalize_def

lemma batch3_value:
  "batch3 =
    (\<lparr>fresh = 9, created = [0, 1, 2, 3, 4, 5, 6, 7, 8], revoked = [], downloads = [], now = 0\<rparr>,
     \<lparr>heicFiles = [\<lparr>ifile = heic_file ''a.heic'' 1, thumbnail = Some 2\<rparr>,
                   \<lparr>ifile = heic_file ''b.heic'' 2, thumbnail = Some 5\<rparr>,
                   \<lparr>ifile = heic_file ''c.HEIF'' 3, thumbnail = Some 8\<rparr>],
      convertedImages = [], outputFormat = Jpeg, loading = False, error = None\<rparr>)"
  by (simp add: batch3_def run_defs)

lemma same_names_value:
  "same_names =
    (\<lparr>fresh = 6, created = [0, 1, 2, 3, 4, 5], revoked = [], downloads = [], now = 0\<rparr>,
     \<lparr>heicFiles = [\<lparr>ifile = heic_file ''IMG_0001.heic'' 1, thumbnail = Some 2\<rparr>,
                   \<lparr>ifile = heic_file ''IMG_0001.heic'' 2, thumbnail = Some 5\<rparr>],
      convertedImages = [], outputFormat = Jpeg, loading = False, error = None\<rparr>)"
  by (simp add: same_names_def run_defs)

section \<open>Handles: creating, revoking, clearing\<close>

lemma clearAll_result:
  "clearAll (w, s) =
     (w\<lparr>revoked := revoked w @ map thumbnail (heicFiles s) @
                     map (\<lambda>img. Some (img_url img)) (convertedImages s)\<rparr>,
      s\<lparr>heicFiles := [], convertedImages := [], error := None\<rparr>)"
  by (simp add: clearAll_def revoke_all_log)

lemma cleanup_result:
  "cleanup s w =
     w\<lparr>revoked := revoked w @ map thumbnail (heicFiles s) @
                    map (\<lambda>img. Some (img_url img)) (convertedImages s)\<rparr>"
  by (simp add: cleanup_def revoke_all_log)

lemma rendered_clear_result:
  "rendered_clear (w, s) =
     (w\<lparr>revoked := revoked w @ map thumbnail (heicFiles s) @
                     map (\<lambda>img. Some (img_url img)) (convertedImages s) @
                     map thumbnail (heicFiles s) @
                     map (\<lambda>img. Some (img_url img)) (convertedImages s)\<rparr>,
      s\<lparr>heicFiles := [], convertedImages := [], error := None\<rparr>)"
  by (simp add: rendered_clear_def clearAll_result cleanup_result)

text \<open>The thumbnails: three create calls for every file the codec accepts, no revoke call.\<close>

lemma make_item_browser:
  "revoked (snd (make_item h f w)) = revoked w \<and>
   length (created (snd (make_item h f w))) =
     length (created w) + (if h f ''image/jpeg'' 2 = None then 0 else 3)"
  by (auto simp: make_item_def createObjectURL_def)

lemma filesWithThumbnails_browser:
  "revoked (snd (filesWithThumbnails h fs w)) = revoked w \<and>
   length (created (snd (filesWithThumbnails h fs w))) =
     length (created w) + 3 * length (filter (\<lambda>f. h f ''image/jpeg'' 2 \<noteq> None) fs)"
proof (induction fs arbitrary: w)
  case Nil
  show ?case by simp
next
  case (Cons f fs)
  from Cons.IH [of "snd (make_item h f w)"] make_item_browser [of h f w]
  show ?case by (simp add: split_beta)
qed

lemma handleFileChange_browser:
  "revoked (fst (handleFileChange h fs (w, s))) = revoked w \<and>
   length (created (fst (handleFileChange h fs (w, s)))) =
     length (created w) +
     3 * length (filter (\<lambda>f. h f ''image/jpeg'' 2 \<noteq> None) (filter accepts fs))"
  using filesWithThumbnails_browser [of h "filter accepts fs" w]
  by (simp add: handleFileChange_def split_beta filter_files_fst)

lemma validate_only_error: "snd (validate f s) = s\<lparr>error := error (snd (validate f s))\<rparr>"
  by (simp add: validate_def)

lemma filter_files_only_error:
  "snd (filter_files fs s) = s\<lparr>error := error (snd (filter_files fs s))\<rparr>"
proof (induction fs arbitrary: s)
  case Nil
  show ?case by simp
next
  case (Cons f fs)
  have step: "snd (filter_files (f # fs) s) = snd (filter_files fs (snd (validate f s)))"
    by (simp add: split_beta)
  have "snd (filter_files fs (snd (validate f s))) =
      (snd (validate f s))\<lparr>error := error (snd (filter_files fs (snd (validate f s))))\<rparr>"
    by (rule Cons.IH)
  also have "\<dots> = s\<lparr>error := error (snd (filter_files fs (snd (validate f s))))\<rparr>"
    by (subst validate_only_error) simp
  finally show ?case
    unfolding step .
qed

lemma handleFileChange_state:
  "snd (handleFileChange h fs (w, s)) =
     s\<lparr>error := error (snd (filter_files fs (s\<lparr>error := None\<rparr>))),
       heicFiles := heicFiles s @ fst (filesWithThumbnails h (filter accepts fs) w)\<rparr>"
proof -
  have "snd (filter_files fs (s\<lparr>error := None\<rparr>)) =
      s\<lparr>error := error (snd (filter_files fs (s\<lparr>error := None\<rparr>)))\<rparr>"
    by (subst filter_files_only_error) simp
  then show ?thesis
    by (simp add: handleFileChange_def split_beta filter_files_fst filter_files_heicFiles)
qed

text \<open>
  The count of calls over add, convert, clear, from a state with empty lists: with \<open>n\<close>
  accepted files, of which \<open>k\<close> get a thumbnail and \<open>m\<close> convert, the handlers make
  \<open>3 * k + m\<close> create calls and \<open>n + m\<close> revoke calls.
\<close>

lemma accounting_counts:
  assumes "heicFiles s = []"
  shows "length (created (fst (clearAll (convertImages h' (handleFileChange h fs (w, s)))))) =
           length (created w) +
           3 * length (filter (\<lambda>f. h f ''image/jpeg'' 2 \<noteq> None) (filter accepts fs)) +
           length (filter (\<lambda>f. \<not> conversion_fails h' (outputFormat s) f) (filter accepts fs)) \<and>
         length (revoked (fst (clearAll (convertImages h' (handleFileChange h fs (w, s)))))) =
           length (revoked w) + length (filter accepts fs) +
           length (filter (\<lambda>f. \<not> conversion_fails h' (outputFormat s) f) (filter accepts fs))"
proof -
  obtain w1 s1 where add: "handleFileChange h fs (w, s) = (w1, s1)"
    by (cases "handleFileChange h fs (w, s)")
  obtain w2 s2 where conv: "convertImages h' (w1, s1) = (w2, s2)"
    by (cases "convertImages h' (w1, s1)")
  have files: "map ifile (heicFiles s1) = filter accepts fs"
    using handleFileChange_files [of h fs w s] assms add by simp
  have fmt: "outputFormat s1 = outputFormat s"
    using handleFileChange_state [of h fs w s] add by simp
  have w1: "revoked w1 = revoked w"
    "length (created w1) = length (created w) +
       3 * length (filter (\<lambda>f. h f ''image/jpeg'' 2 \<noteq> None) (filter accepts fs))"
    using handleFileChange_browser [of h fs w s] add by simp_all
  have m: "length (convertedImages s2) =
      length (filter (\<lambda>f. \<not> conversion_fails h' (outputFormat s) f) (filter accepts fs))"
  proof -
    have "length (convertedImages s2) = length (map img_originalFile (convertedImages s2))"
      by simp
    also have "\<dots> = length (filter (\<lambda>it. \<not> conversion_fails h' (outputFormat s1) (ifile it)) (heicFiles s1))"
      using convertImages_originals [of h' w1 s1] conv by simp
    also have "\<dots> = length (filter (\<lambda>f. \<not> conversion_fails h' (outputFormat s) f) (map ifile (heicFiles s1)))"
      by (simp add: filter_map comp_def fmt)
    finally show ?thesis by (simp add: files)
  qed
  have w2: "revoked w2 = revoked w1"
    "length (created w2) = length (created w1) + length (convertedImages s2)"
    using convertImages_browser [of h' w1 s1] conv by simp_all
  have n: "length (heicFiles s2) = length (filter accepts fs)"
    using convertImages_keeps [of h' w1 s1] conv files
    by (metis length_map snd_conv)
  show ?thesis
    by (simp add: add conv clearAll_result w1 w2 m n)
qed

section \<open>Claims about validation\<close>

text \<open>
  The validation of \<^verbatim>\<open>src/src/App.jsx\<close> has the same size limit, and accepts only the two
  media types \<^verbatim>\<open>image/heic\<close> and \<^verbatim>\<open>image/heif\<close>.
\<close>

lemma validate_jsx_rejects_iff:
  "\<not> fst (validate_jsx f s) \<longleftrightarrow>
     ftype f \<notin> {''image/heic'', ''image/heif''} \<or> 25 * 1024 * 1024 < fsize f"
  by (auto simp: validate_jsx_def MAX_FILE_SIZE_MB_def)

lemma filter_files_jsx_fst:
  "fst (filter_files_jsx fs s) =
     filter (\<lambda>f. ftype f \<in> {''image/heic'', ''image/heif''} \<and> fsize f \<le> 25 * 1024 * 1024) fs"
  by (induction fs arbitrary: s) (auto simp: validate_jsx_def MAX_FILE_SIZE_MB_def split_beta)

lemma handleFileChange_jsx_vendor_type:
  "heicFiles (snd (handleFileChange_jsx [typed_file ''c.heic'' ''image/x-heic'' 100] (w, s))) =
     heicFiles s \<and>
   map ifile (heicFiles (snd (handleFileChange h [typed_file ''c.heic'' ''image/x-heic'' 100] (w, t)))) =
     map ifile (heicFiles t) @ [typed_file ''c.heic'' ''image/x-heic'' 100]"
  by (simp add: handleFileChange_jsx_def validate_jsx_def handleFileChange_files accepts_def
      allowed_types_def typed_file_def)

lemma filter_files_jsx_heicFiles: "heicFiles (snd (filter_files_jsx fs s)) = heicFiles s"
  by (induction fs arbitrary: s) (simp_all add: validate_jsx_def split_beta)

lemma handleFileChange_jsx_files:
  "heicFiles (snd (handleFileChange_jsx fs (w, s))) =
     heicFiles s @
     filter (\<lambda>f. ftype f \<in> {''image/heic'', ''image/heif''} \<and> fsize f \<le> 25 * 1024 * 1024) fs"
  by (simp add: handleFileChange_jsx_def split_beta filter_files_jsx_fst filter_files_jsx_heicFiles)

text \<open>
  Claim C4, as the code has it. In each file the validation rejects a file exactly when its
  media type is outside the allow-list of that file or its byte length exceeds
  \<open>25 * 1024 * 1024\<close>, and the files that \<^verbatim>\<open>handleFileChange\<close> appends to the accepted list
  are exactly the files of its argument that pass, in order, so a rejected file is never
  appended. The allow-list of \<^verbatim>\<open>src/unnamed/part_000\<close> is \<^verbatim>\<open>image/heic\<close>, \<^verbatim>\<open>image/heif\<close>,
  \<^verbatim>\<open>image/x-heic\<close>, \<^verbatim>\<open>image/x-heif\<close>; that of \<^verbatim>\<open>src/src/App.jsx\<close> is \<^verbatim>\<open>image/heic\<close>,
  \<^verbatim>\<open>image/heif\<close>. Types are compared as strings, so case matters.
\<close>

theorem validation_rejects_iff:
  "(\<not> fst (validate f s) \<longleftrightarrow>
      ftype f \<notin> {''image/heic'', ''image/heif'', ''image/x-heic'', ''image/x-heif''} \<or>
      25 * 1024 * 1024 < fsize f) \<and>
   map ifile (heicFiles (snd (handleFileChange heic2any fs (w, s)))) =
     map ifile (heicFiles s) @ filter (\<lambda>f. fst (validate f s)) fs \<and>
   (\<not> fst (validate_jsx f t) \<longleftrightarrow>
      ftype f \<notin> {''image/heic'', ''image/heif''} \<or> 25 * 1024 * 1024 < fsize f) \<and>
   heicFiles (snd (handleFileChange_jsx fs (w, t))) =
     heicFiles t @ filter (\<lambda>f. fst (validate_jsx f t)) fs"
proof (intro conjI)
  show "\<not> fst (validate f s) \<longleftrightarrow>
      ftype f \<notin> {''image/heic'', ''image/heif'', ''image/x-heic'', ''image/x-heif''} \<or>
      25 * 1024 * 1024 < fsize f"
    by (auto simp: validate_accepts accepts_def allowed_types_def)
  show "map ifile (heicFiles (snd (handleFileChange heic2any fs (w, s)))) =
     map ifile (heicFiles s) @ filter (\<lambda>f. fst (validate f s)) fs"
    by (simp add: validate_accepts handleFileChange_files)
  show "\<not> fst (validate_jsx f t) \<longleftrightarrow>
      ftype f \<notin> {''image/heic'', ''image/heif''} \<or> 25 * 1024 * 1024 < fsize f"
    by (rule validate_jsx_rejects_iff)
  have "fst (validate_jsx g t) \<longleftrightarrow>
      ftype g \<in> {''image/heic'', ''image/heif''} \<and> fsize g \<le> 25 * 1024 * 1024" for g
    by (auto simp: validate_jsx_def MAX_FILE_SIZE_MB_def)
  then have "filter (\<lambda>f. fst (validate_jsx f t)) fs =
      filter (\<lambda>f. ftype f \<in> {''image/heic'', ''image/heif''} \<and> fsize f \<le> 25 * 1024 * 1024) fs"
    by (simp only:)
  then show "heicFiles (snd (handleFileChange_jsx fs (w, t))) =
     heicFiles t @ filter (\<lambda>f. fst (validate_jsx f t)) fs"
    by (simp only: handleFileChange_jsx_files)
qed

theorem validation_rejects_iff_witness:
  "map ifile (heicFiles (snd (handleFileChange (codec_failing [])
      [typed_file ''a.heic'' ''image/heic'' 100, typed_file ''b.png'' ''image/png'' 100,
       typed_file ''c.heif'' ''image/x-heif'' 26214400, typed_file ''d.heic'' ''image/HEIC'' 100,
       typed_file ''e.heic'' ''image/heic'' 26214401]
      (browser0, initial)))) =
     [typed_file ''a.heic'' ''image/heic'' 100, typed_file ''c.heif'' ''image/x-heif'' 26214400] \<and>
   heicFiles (snd (handleFileChange_jsx
      [typed_file ''a.heic'' ''image/heic'' 100, typed_file ''b.png'' ''image/png'' 100,
       typed_file ''c.heif'' ''image/x-heif'' 26214400, typed_file ''d.heic'' ''image/HEIC'' 100,
       typed_file ''e.heic'' ''image/heic'' 26214401]
      (browser0, initial))) =
     [typed_file ''a.heic'' ''image/heic'' 100] \<and>
   \<not> fst (validate (typed_file ''b.png'' ''image/png'' 100) (initial :: item app_state)) \<and>
   \<not> fst (validate_jsx (typed_file ''b.png'' ''image/png'' 100) (initial :: jsfile app_state)) \<and>
   \<not> fst (validate (typed_file ''d.heic'' ''image/HEIC'' 100) (initial :: item app_state)) \<and>
   \<not> fst (validate (typed_file ''e.heic'' ''image/heic'' 26214401) (initial :: item app_state)) \<and>
   fst (validate (typed_file ''c.heif'' ''image/x-heif'' 26214400) (initial :: item app_state))"
  using validation_rejects_iff [where s = initial and t = initial and w = browser0
      and heic2any = "codec_failing []"
      and f = "typed_file ''b.png'' ''image/png'' 100"
      and fs = "[typed_file ''a.heic'' ''image/heic'' 100, typed_file ''b.png'' ''image/png'' 100,
       typed_file ''c.heif'' ''image/x-heif'' 26214400, typed_file ''d.heic'' ''image/HEIC'' 100,
       typed_file ''e.heic'' ''image/heic'' 26214401]"]
  by (simp add: typed_file_def initial_def validate_def validate_jsx_def allowed_types_def
      MAX_FILE_SIZE_MB_def)

text \<open>
  In \<^verbatim>\<open>src/src/App.jsx\<close> a file of the type \<^verbatim>\<open>image/x-heic\<close> is rejected as unsupported and
  not appended.
\<close>

theorem vendor_type_rejected_counterexample:
  "\<not> fst (validate_jsx (typed_file ''c.heic'' ''image/x-heic'' 100) (initial :: jsfile app_state)) \<and>
   heicFiles (snd (handleFileChange_jsx [typed_file ''c.heic'' ''image/x-heic'' 100]
      (browser0, initial))) = [] \<and>
   error (snd (handleFileChange_jsx [typed_file ''c.heic'' ''image/x-heic'' 100]
      (browser0, initial))) =
     Some ''Unsupported file type: c.heic. Only HEIC/HEIF files are allowed.''"
  by (simp add: handleFileChange_jsx_def validate_jsx_def typed_file_def initial_def)

text \<open>
  Claim C7. A file whose media type is allowed and whose byte length is exactly
  \<open>25 * 1024 * 1024\<close> passes the validation and is appended to the accepted list; a file
  one byte longer is rejected and is not appended, whatever its media type.
\<close>

theorem size_boundary:
  "(ftype f \<in> set allowed_types \<and> fsize f = 25 * 1024 * 1024 \<longrightarrow>
      fst (validate f s) \<and>
      map ifile (heicFiles (snd (handleFileChange heic2any [f] (w, s)))) =
        map ifile (heicFiles s) @ [f]) \<and>
   (fsize f = 25 * 1024 * 1024 + 1 \<longrightarrow>
      \<not> fst (validate f s) \<and>
      map ifile (heicFiles (snd (handleFileChange heic2any [f] (w, s)))) =
        map ifile (heicFiles s))"
  by (simp add: validate_accepts handleFileChange_files accepts_def)

theorem size_boundary_witness:
  "fst (validate (typed_file ''a.heic'' ''image/x-heic'' 26214400) (initial :: item app_state)) \<and>
   map ifile (heicFiles (snd (handleFileChange (codec_failing [])
      [typed_file ''a.heic'' ''image/x-heic'' 26214400] (browser0, initial)))) =
     [typed_file ''a.heic'' ''image/x-heic'' 26214400] \<and>
   \<not> fst (validate (typed_file ''a.heic'' ''image/x-heic'' 26214401) (initial :: item app_state)) \<and>
   map ifile (heicFiles (snd (handleFileChange (codec_failing [])
      [typed_file ''a.heic'' ''image/x-heic'' 26214401] (browser0, initial)))) = []"
  using size_boundary [where f = "typed_file ''a.heic'' ''image/x-heic'' 26214400"
      and s = initial and w = browser0 and heic2any = "codec_failing []"]
    size_boundary [where f = "typed_file ''a.heic'' ''image/x-heic'' 26214401"
      and s = initial and w = browser0 and heic2any = "codec_failing []"]
  by (simp add: typed_file_def initial_def allowed_types_def)

section \<open>Claims about a conversion run\<close>

text \<open>
  Claim C2, as the code has it. The name of every converted image is the output name
  derived from the name of its original file. When that name ends in \<^verbatim>\<open>.heic\<close> or
  \<^verbatim>\<open>.heif\<close> (in any letter case), the output name ends in the dot and the selected
  format and no longer ends in \<^verbatim>\<open>.heic\<close> or \<^verbatim>\<open>.heif\<close>; any other name is kept unchanged.
\<close>

theorem output_name_of_converted:
  assumes "img \<in> set (convertedImages (snd (convertImages h (w, s))))"
  shows "img_name img = output_name (outputFormat s) (fname (img_originalFile img)) \<and>
         (source_ext (fname (img_originalFile img)) \<longrightarrow>
            ends_with (''.'' @ format_string (outputFormat s)) (img_name img) \<and>
            \<not> source_ext (img_name img)) \<and>
         (\<not> source_ext (fname (img_originalFile img)) \<longrightarrow>
            img_name img = fname (img_originalFile img))"
proof -
  have "\<forall>img \<in> set (snd (snd (convert_loop h (outputFormat s) (heicFiles s)
             (w, s\<lparr>loading := True, error := None, convertedImages := []\<rparr>, [])))).
           img_name img = output_name (outputFormat s) (fname (img_originalFile img))"
    by (rule convert_loop_name_of) simp
  with assms have n: "img_name img = output_name (outputFormat s) (fname (img_originalFile img))"
    by (simp add: convertImages_result)
  show ?thesis
    using n output_name_replaced [of "fname (img_originalFile img)" "outputFormat s"]
    by (simp add: output_name_def)
qed

theorem output_name_of_converted_witness:
  "source_ext ''c.HEIF'' \<and>
   map (\<lambda>img. fname (img_originalFile img))
     (convertedImages (snd (convertImages (codec_failing []) batch3))) =
     [''a.heic'', ''b.heic'', ''c.HEIF''] \<and>
   img_name (last (convertedImages (snd (convertImages (codec_failing []) batch3)))) = ''c.jpeg'' \<and>
   ends_with ''.jpeg'' (img_name (last (convertedImages (snd (convertImages (codec_failing []) batch3))))) \<and>
   \<not> source_ext (img_name (last (convertedImages (snd (convertImages (codec_failing []) batch3)))))"
proof -
  have run: "convertedImages (snd (convertImages (codec_failing []) batch3)) =
     [\<lparr>img_id = (''a.heic'', 0), img_name = ''a.jpeg'', img_url = 9,
        img_blob = \<lparr>btype = ''image/jpeg'', bdata = 1\<rparr>, img_originalFile = heic_file ''a.heic'' 1\<rparr>,
      \<lparr>img_id = (''b.heic'', 0), img_name = ''b.jpeg'', img_url = 10,
        img_blob = \<lparr>btype = ''image/jpeg'', bdata = 2\<rparr>, img_originalFile = heic_file ''b.heic'' 2\<rparr>,
      \<lparr>img_id = (''c.HEIF'', 0), img_name = ''c.jpeg'', img_url = 11,
        img_blob = \<lparr>btype = ''image/jpeg'', bdata = 3\<rparr>, img_originalFile = heic_file ''c.HEIF'' 3\<rparr>]"
    by (simp add: batch3_value run_defs name_defs)
  have ext: "source_ext ''c.HEIF''"
    by (simp add: name_defs)
  have mem: "last (convertedImages (snd (convertImages (codec_failing []) batch3))) \<in>
      set (convertedImages (snd (convertImages (codec_failing []) (fst batch3, snd batch3))))"
    by (simp add: run)
  have orig: "fname (img_originalFile (last (convertedImages (snd (convertImages (codec_failing []) batch3))))) =
      ''c.HEIF''"
    by (simp add: run heic_file_def)
  have fmt: "outputFormat (snd batch3) = Jpeg"
    by (simp add: batch3_value)
  have names: "map (\<lambda>img. fname (img_originalFile img))
     (convertedImages (snd (convertImages (codec_failing []) batch3))) =
     [''a.heic'', ''b.heic'', ''c.HEIF'']"
    by (simp add: run heic_file_def)
  have out: "output_name Jpeg ''c.HEIF'' = ''c.jpeg''"
    by (simp add: name_defs)
  from output_name_of_converted [OF mem]
  have "img_name (last (convertedImages (snd (convertImages (codec_failing []) batch3)))) = ''c.jpeg'' \<and>
   ends_with ''.jpeg'' (img_name (last (convertedImages (snd (convertImages (codec_failing []) batch3))))) \<and>
   \<not> source_ext (img_name (last (convertedImages (snd (convertImages (codec_failing []) batch3)))))"
    by (auto simp: orig fmt out ext)
  with ext names show ?thesis
    by blast
qed

theorem output_name_unchanged_counterexample:
  "fst (validate hif_file (initial :: item app_state)) \<and>
   map img_name (convertedImages (snd (convertImages (codec_failing [])
      (handleFileChange (codec_failing []) [hif_file] (browser0, initial))))) = [''IMG_0001.HIF''] \<and>
   \<not> ends_with ''.jpeg'' ''IMG_0001.HIF''"
  by (simp add: run_defs name_defs)

text \<open>
  In \<^verbatim>\<open>src/src/App.jsx\<close> only a lower case \<^verbatim>\<open>.heic\<close> at the end is replaced: the names
  of files of type \<^verbatim>\<open>image/heif\<close> and upper case names are kept as they are.
\<close>

lemma output_name_jsx_replaced:
  assumes "ends_with ''.heic'' n"
  shows "ends_with (''.'' @ format_string fmt) (output_name_jsx fmt n) \<and>
         \<not> source_ext (output_name_jsx fmt n)"
proof -
  have out: "output_name_jsx fmt n = take (length n - 5) n @ ''.'' @ format_string fmt"
    using assms by (simp add: output_name_jsx_def)
  have "ends_with (''.'' @ format_string fmt) (take (length n - 5) n @ ''.'' @ format_string fmt)"
    by (simp add: ends_with_def)
  with out not_source_ext_format [of "take (length n - 5) n" fmt] show ?thesis
    by simp
qed

lemma output_name_jsx_examples:
  "output_name_jsx Png ''a.heic'' = ''a.png''"
  "output_name_jsx Png ''a.HEIC'' = ''a.HEIC''"
  "output_name_jsx Png ''a.heif'' = ''a.heif''"
  "output_name Png ''a.HEIC'' = ''a.png''"
  "output_name Png ''a.heif'' = ''a.png''"
  by (simp_all add: output_name_jsx_def name_defs)

text \<open>
  Claim C5. In a batch of accepted files of which some fail to convert, \<^verbatim>\<open>convertImages\<close>
  goes through the whole list: the converted list has one entry for each file that did not
  fail, so its length is the number of accepted files minus the number of failing ones.
  When at least one file fails, the error message left at the end is the
  "Failed to convert" message with the name of a failing file (the last one in list
  order); when none fails, no error message is left.
\<close>

theorem partial_failure:
  assumes "failing = filter (\<lambda>it. conversion_fails h (outputFormat s) (ifile it)) (heicFiles s)"
  shows "length (convertedImages (snd (convertImages h (w, s)))) =
           length (heicFiles s) - length failing \<and>
         (failing \<noteq> [] \<longrightarrow>
            last failing \<in> set failing \<and>
            error (snd (convertImages h (w, s))) =
              Some (''Failed to convert '' @ fname (ifile (last failing)) @
                    ''. Please try again.'')) \<and>
         (failing = [] \<longrightarrow> error (snd (convertImages h (w, s))) = None)"
proof -
  have "length (convertedImages (snd (convertImages h (w, s)))) =
        length (map img_name (convertedImages (snd (convertImages h (w, s)))))"
    by simp
  also have "\<dots> = length (filter (\<lambda>it. \<not> conversion_fails h (outputFormat s) (ifile it)) (heicFiles s))"
    by (simp only: convertImages_names length_map)
  also have "\<dots> = length (heicFiles s) - length failing"
    using sum_length_filter_compl [of "\<lambda>it. conversion_fails h (outputFormat s) (ifile it)" "heicFiles s"]
    by (simp add: assms)
  finally have count: "length (convertedImages (snd (convertImages h (w, s)))) =
        length (heicFiles s) - length failing" .
  have err: "error (snd (convertImages h (w, s))) =
     (case failing of [] \<Rightarrow> None
      | f # fs \<Rightarrow> Some (''Failed to convert '' @ fname (ifile (last (f # fs))) @
                         ''. Please try again.''))"
    unfolding assms by (rule convertImages_error)
  show ?thesis
    using count err by (cases failing) simp_all
qed

theorem partial_failure_witness:
  "length (heicFiles (snd batch3)) = 3 \<and>
   filter (\<lambda>it. conversion_fails (codec_failing [''b.heic'']) (outputFormat (snd batch3)) (ifile it))
     (heicFiles (snd batch3)) = [\<lparr>ifile = heic_file ''b.heic'' 2, thumbnail = Some 5\<rparr>] \<and>
   length (convertedImages (snd (convertImages (codec_failing [''b.heic'']) batch3))) = 2 \<and>
   error (snd (convertImages (codec_failing [''b.heic'']) batch3)) =
     Some ''Failed to convert b.heic. Please try again.''"
proof -
  have failing: "[\<lparr>ifile = heic_file ''b.heic'' 2, thumbnail = Some 5\<rparr>] =
      filter (\<lambda>it. conversion_fails (codec_failing [''b.heic'']) (outputFormat (snd batch3)) (ifile it))
        (heicFiles (snd batch3))"
    by (simp add: batch3_value conversion_fails_def codec_failing_def heic_file_def)
  have n: "length (heicFiles (snd batch3)) = 3"
    by (simp add: batch3_value)
  from partial_failure [OF failing, of "fst batch3"] n failing [symmetric] show ?thesis
    by (simp add: heic_file_def)
qed

text \<open>The loop of \<^verbatim>\<open>src/src/App.jsx\<close> skips the failing files in the same way.\<close>

lemma convert_loop_jsx_originals:
  "map img_originalFile (snd (snd (convert_loop_jsx h fmt fs (w, s, new)))) =
     map img_originalFile new @ filter (\<lambda>f. \<not> conversion_fails h fmt f) fs"
  by (induction fs arbitrary: w s new)
    (simp_all add: convert_item_jsx_def conversion_fails_def split_beta split: option.splits)

lemma convertImages_jsx_originals:
  "map img_originalFile (convertedImages (snd (convertImages_jsx h (w, s)))) =
     filter (\<lambda>f. \<not> conversion_fails h (outputFormat s) f) (heicFiles s)"
  by (simp add: convertImages_jsx_def split_beta convert_loop_jsx_originals)

text \<open>
  Claim C8, as the code has it. The output names of a run are the derived output names of
  the files that converted, in list order; nothing makes them differ. They are pairwise
  distinct, and so are the entry names handed to the archive writer, whenever the derived
  output names of the accepted files are pairwise distinct.
\<close>

theorem names_distinct:
  assumes "distinct (map (\<lambda>it. output_name (outputFormat s) (fname (ifile it))) (heicFiles s))"
  shows "distinct (map img_name (convertedImages (snd (convertImages h (w, s))))) \<and>
         distinct (map fst (zip_entries (convertedImages (snd (convertImages h (w, s))))))"
proof -
  have "distinct (map img_name (convertedImages (snd (convertImages h (w, s)))))"
    unfolding convertImages_names using assms by (rule distinct_map_filter)
  moreover have "map fst (zip_entries imgs) = map img_name imgs" for imgs
    by (simp add: zip_entries_def comp_def)
  ultimately show ?thesis by simp
qed

theorem names_distinct_witness:
  "distinct (map (\<lambda>it. output_name (outputFormat (snd batch3)) (fname (ifile it)))
      (heicFiles (snd batch3))) \<and>
   distinct (map img_name (convertedImages (snd (convertImages (codec_failing []) batch3)))) \<and>
   map img_name (convertedImages (snd (convertImages (codec_failing []) batch3))) =
     [''a.jpeg'', ''b.jpeg'', ''c.jpeg'']"
proof -
  have d: "distinct (map (\<lambda>it. output_name (outputFormat (snd batch3)) (fname (ifile it)))
      (heicFiles (snd batch3)))"
    by (simp add: batch3_value heic_file_def name_defs)
  have "map img_name (convertedImages (snd (convertImages (codec_failing []) batch3))) =
     [''a.jpeg'', ''b.jpeg'', ''c.jpeg'']"
    by (simp add: batch3_value run_defs name_defs)
  with d names_distinct [OF d, of "codec_failing []" "fst batch3"] show ?thesis
    by simp
qed

text \<open>
  Two accepted files of the same name (from two folders) give two converted images of
  the same output name.
\<close>

theorem names_collide_counterexample:
  "map (\<lambda>it. fname (ifile it)) (heicFiles (snd same_names)) = [''IMG_0001.heic'', ''IMG_0001.heic''] \<and>
   map (\<lambda>it. fdata (ifile it)) (heicFiles (snd same_names)) = [1, 2] \<and>
   map img_name (convertedImages (snd (convertImages (codec_failing []) same_names))) =
     [''IMG_0001.jpeg'', ''IMG_0001.jpeg''] \<and>
   \<not> distinct (map img_name (convertedImages (snd (convertImages (codec_failing []) same_names))))"
  by (simp add: same_names_value run_defs name_defs)

section \<open>Claims about handles and the error message\<close>

lemma one_file_value:
  "one_file =
    (\<lparr>fresh = 3, created = [0, 1, 2], revoked = [], downloads = [], now = 0\<rparr>,
     \<lparr>heicFiles = [\<lparr>ifile = heic_file ''a.heic'' 1, thumbnail = Some 2\<rparr>],
      convertedImages = [], outputFormat = Jpeg, loading = False, error = None\<rparr>)"
  by (simp add: one_file_def run_defs)

lemma one_file_converted:
  "convertImages (codec_failing []) one_file =
    (\<lparr>fresh = 4, created = [0, 1, 2, 3], revoked = [], downloads = [], now = 0\<rparr>,
     \<lparr>heicFiles = [\<lparr>ifile = heic_file ''a.heic'' 1, thumbnail = Some 2\<rparr>],
      convertedImages =
        [\<lparr>img_id = (''a.heic'', 0), img_name = ''a.jpeg'', img_url = 3,
           img_blob = \<lparr>btype = ''image/jpeg'', bdata = 1\<rparr>,
           img_originalFile = heic_file ''a.heic'' 1\<rparr>],
      outputFormat = Jpeg, loading = False, error = None\<rparr>)"
  by (simp add: one_file_value run_defs name_defs)

lemma one_file_rendered_value: "one_file_rendered = one_file"
proof -
  have "one_file_rendered = (cleanup initial (fst one_file), snd one_file)"
    by (simp add: one_file_rendered_def rendered_add_def one_file_def split_beta)
  also have "cleanup initial (fst one_file) = fst one_file"
    by (simp add: cleanup_result initial_def)
  finally show ?thesis by simp
qed

lemma one_file_rendered_converted:
  "rendered_convert (codec_failing []) one_file =
    (\<lparr>fresh = 4, created = [0, 1, 2, 3], revoked = [Some 2, Some 2], downloads = [], now = 0\<rparr>,
     snd (convertImages (codec_failing []) one_file))"
  by (simp add: one_file_converted)
    (simp add: one_file_value rendered_convert_def cleanup_result run_defs name_defs)

text \<open>
  Claim C1 says that over add, convert, clear the revoke calls are as many as the create
  calls, every handle created being revoked exactly once. The code does otherwise on this
  run: one valid file is added (its thumbnail succeeds), converted and cleared. \<^verbatim>\<open>handleFileChange\<close> makes three create calls (handles 0, 1 and 2, the first
  two inside \<^verbatim>\<open>console.log\<close> arguments) and \<^verbatim>\<open>convertImages\<close> one (handle 3): four create
  calls. Clear All makes two revoke calls, for handles 2 and 3, so handles 0 and 1 are
  never revoked. With the runs of the effect's cleanup there are six revoke calls, four
  of them for handle 2 and two for handle 3.
\<close>

theorem handle_accounting_run:
  "created (fst (clearAll (convertImages (codec_failing []) one_file))) = [0, 1, 2, 3] \<and>
   revoked (fst (clearAll (convertImages (codec_failing []) one_file))) = [Some 2, Some 3] \<and>
   created (fst (rendered_clear (rendered_convert (codec_failing []) one_file_rendered))) =
     [0, 1, 2, 3] \<and>
   revoked (fst (rendered_clear (rendered_convert (codec_failing []) one_file_rendered))) =
     [Some 2, Some 2, Some 2, Some 3, Some 2, Some 3]"
  by (simp add: one_file_rendered_value one_file_rendered_converted one_file_converted
      clearAll_result rendered_clear_result)

text \<open>
  \<^verbatim>\<open>convertImages\<close> revokes nothing, in either file; in \<^verbatim>\<open>src/unnamed/part_000\<close> the URLs
  of the previous run are revoked only by the effect's cleanup, which then revokes the
  thumbnails of the items still shown as well, once after the list has been emptied and
  once after the new list has been stored.
\<close>

lemma convert_loop_jsx_revoked:
  "revoked (fst (convert_loop_jsx h fmt fs (w, s, new))) = revoked w"
  by (induction fs arbitrary: w s new)
    (simp_all add: convert_item_jsx_def createObjectURL_def split_beta split: option.splits)

lemma convertImages_jsx_revoked: "revoked (fst (convertImages_jsx h (w, s))) = revoked w"
  by (simp add: convertImages_jsx_def split_beta convert_loop_jsx_revoked)

lemma rendered_convert_revoked:
  "revoked (fst (rendered_convert h (w, s))) =
     revoked w @ map thumbnail (heicFiles s) @
     map (\<lambda>img. Some (img_url img)) (convertedImages s) @ map thumbnail (heicFiles s)"
  by (simp add: rendered_convert_def split_beta cleanup_result convert_loop_revoked
      convert_loop_state)

lemma one_file_jsx_value:
  "one_file_jsx =
    (browser0,
     \<lparr>heicFiles = [heic_file ''a.heic'' 1], convertedImages = [], outputFormat = Jpeg,
      loading = False, error = None\<rparr>)"
  by (simp add: one_file_jsx_def handleFileChange_jsx_def validate_jsx_def heic_file_def
      MAX_FILE_SIZE_MB_def initial_def)

lemma one_file_jsx_converted:
  "convertImages_jsx (codec_failing []) one_file_jsx =
    (\<lparr>fresh = 1, created = [0], revoked = [], downloads = [], now = 0\<rparr>,
     \<lparr>heicFiles = [heic_file ''a.heic'' 1],
      convertedImages =
        [\<lparr>img_id = (''a.heic'', 0), img_name = ''a.jpeg'', img_url = 0,
           img_blob = \<lparr>btype = ''image/jpeg'', bdata = 1\<rparr>,
           img_originalFile = heic_file ''a.heic'' 1\<rparr>],
      outputFormat = Jpeg, loading = False, error = None\<rparr>)"
  by (simp add: one_file_jsx_value convertImages_jsx_def convert_item_jsx_def createObjectURL_def
      codec_failing_def heic_file_def browser0_def output_name_jsx_def ends_with_def)

lemma rendered_convert_parts:
  "rendered_convert h ws = rendered_convert_rest h (rendered_convert_start ws)"
  by (cases ws) (simp add: rendered_convert_def rendered_convert_rest_def rendered_convert_start_def)

lemma first_run_value:
  "first_run =
    (\<lparr>fresh = 4, created = [0, 1, 2, 3], revoked = [Some 2, Some 2], downloads = [], now = 0\<rparr>,
     \<lparr>heicFiles = [\<lparr>ifile = heic_file ''a.heic'' 1, thumbnail = Some 2\<rparr>],
      convertedImages =
        [\<lparr>img_id = (''a.heic'', 0), img_name = ''a.jpeg'', img_url = 3,
           img_blob = \<lparr>btype = ''image/jpeg'', bdata = 1\<rparr>,
           img_originalFile = heic_file ''a.heic'' 1\<rparr>],
      outputFormat = Jpeg, loading = False, error = None\<rparr>)"
  by (simp add: first_run_def one_file_rendered_value one_file_rendered_converted
      one_file_converted)

text \<open>
  Claim C3, as the code has it. In \<^verbatim>\<open>src/unnamed/part_000\<close> a conversion run starts by
  emptying the converted list; at the render this causes, the cleanup revokes the URL of
  every image of the previous run (and the thumbnail of every item), and at that point no
  URL of the new run has been created. So every URL of the previous run is in the log of
  revoke calls when the run ends, and the new list holds the images of this run only.
  The handler itself makes no revoke call; in \<^verbatim>\<open>src/src/App.jsx\<close>, where no code revokes,
  \<^verbatim>\<open>convertImages\<close> replaces the list and revokes nothing.
\<close>

theorem previous_urls_revoked:
  "rendered_convert h (w, s) = rendered_convert_rest h (rendered_convert_start (w, s)) \<and>
   convertedImages (snd (rendered_convert_start (w, s))) = [] \<and>
   created (fst (rendered_convert_start (w, s))) = created w \<and>
   revoked (fst (rendered_convert_start (w, s))) =
     revoked w @ map thumbnail (heicFiles s) @
     map (\<lambda>img. Some (img_url img)) (convertedImages s) \<and>
   (\<forall>img \<in> set (convertedImages s).
      Some (img_url img) \<in> set (revoked (fst (rendered_convert h (w, s))))) \<and>
   map img_originalFile (convertedImages (snd (rendered_convert h (w, s)))) =
     map ifile (filter (\<lambda>it. \<not> conversion_fails h (outputFormat s) (ifile it)) (heicFiles s)) \<and>
   revoked (fst (convertImages h (w, s))) = revoked w \<and>
   revoked (fst (convertImages_jsx h (w', s'))) = revoked w' \<and>
   map img_originalFile (convertedImages (snd (convertImages_jsx h (w', s')))) =
     filter (\<lambda>f. \<not> conversion_fails h (outputFormat s') f) (heicFiles s')"
proof -
  have start: "rendered_convert_start (w, s) =
      (w\<lparr>revoked := revoked w @ map thumbnail (heicFiles s) @
                      map (\<lambda>img. Some (img_url img)) (convertedImages s)\<rparr>,
       s\<lparr>loading := True, error := None, convertedImages := []\<rparr>)"
    by (simp add: rendered_convert_start_def cleanup_result)
  have all: "\<forall>img \<in> set (convertedImages s).
      Some (img_url img) \<in> set (revoked (fst (rendered_convert h (w, s))))"
    by (simp add: rendered_convert_revoked)
  have new: "map img_originalFile (convertedImages (snd (rendered_convert h (w, s)))) =
     map ifile (filter (\<lambda>it. \<not> conversion_fails h (outputFormat s) (ifile it)) (heicFiles s))"
    by (simp add: rendered_convert_def split_beta convert_loop_originals)
  show ?thesis
    using all new
    by (simp add: rendered_convert_parts start convertImages_browser convertImages_jsx_revoked
        convertImages_jsx_originals)
qed

theorem previous_urls_revoked_witness:
  "map img_url (convertedImages (snd first_run)) = [3] \<and>
   revoked (fst first_run) = [Some 2, Some 2] \<and>
   convertedImages (snd (rendered_convert_start first_run)) = [] \<and>
   created (fst (rendered_convert_start first_run)) = [0, 1, 2, 3] \<and>
   revoked (fst (rendered_convert_start first_run)) = [Some 2, Some 2, Some 2, Some 3] \<and>
   Some 3 \<in> set (revoked (fst (rendered_convert (codec_failing []) first_run))) \<and>
   revoked (fst (rendered_convert (codec_failing []) first_run)) =
     [Some 2, Some 2, Some 2, Some 3, Some 2] \<and>
   map img_url (convertedImages (snd (rendered_convert (codec_failing []) first_run))) = [4]"
proof -
  have urls: "map img_url (convertedImages (snd (rendered_convert (codec_failing []) first_run))) = [4]"
    by (simp add: first_run_value)
      (simp add: rendered_convert_def cleanup_result convert_item_def createObjectURL_def
        codec_failing_def heic_file_def)
  have log: "revoked (fst (rendered_convert (codec_failing []) first_run)) =
     [Some 2, Some 2, Some 2, Some 3, Some 2]"
    by (simp add: first_run_value rendered_convert_revoked)
  from previous_urls_revoked [of "codec_failing []" "fst first_run" "snd first_run"] urls log
  show ?thesis
    by (simp add: first_run_value)
qed

text \<open>
  In \<^verbatim>\<open>src/src/App.jsx\<close> a first run produces an image with URL 0; a second run replaces
  it by an image with URL 1 and the log of revoke calls stays empty.
\<close>

theorem convert_jsx_keeps_urls_counterexample:
  "map img_url (convertedImages (snd (convertImages_jsx (codec_failing []) one_file_jsx))) = [0] \<and>
   map img_url (convertedImages (snd (convertImages_jsx (codec_failing [])
       (convertImages_jsx (codec_failing []) one_file_jsx)))) = [1] \<and>
   created (fst (convertImages_jsx (codec_failing [])
       (convertImages_jsx (codec_failing []) one_file_jsx))) = [0, 1] \<and>
   revoked (fst (convertImages_jsx (codec_failing [])
       (convertImages_jsx (codec_failing []) one_file_jsx))) = []"
proof -
  have "map img_url (convertedImages (snd (convertImages_jsx (codec_failing [])
       (convertImages_jsx (codec_failing []) one_file_jsx)))) = [1] \<and>
   created (fst (convertImages_jsx (codec_failing [])
       (convertImages_jsx (codec_failing []) one_file_jsx))) = [0, 1] \<and>
   revoked (fst (convertImages_jsx (codec_failing [])
       (convertImages_jsx (codec_failing []) one_file_jsx))) = []"
    by (simp add: one_file_jsx_converted)
      (simp add: convertImages_jsx_def convert_item_jsx_def createObjectURL_def codec_failing_def
        heic_file_def)
  then show ?thesis
    by (simp add: one_file_jsx_converted)
qed

text \<open>
  \<^verbatim>\<open>handleFileChange\<close> and \<^verbatim>\<open>convertImages\<close> start with \<^verbatim>\<open>setError(null)\<close>: their result does
  not depend on the error message they find. \<^verbatim>\<open>downloadAllImages\<close> never clears it: the
  message it leaves is its own when the archive writer fails, and otherwise the one it
  found.
\<close>

lemma handleFileChange_forgets_error:
  "handleFileChange h fs (w, s\<lparr>error := e\<rparr>) = handleFileChange h fs (w, s)"
  by (simp add: handleFileChange_def)

lemma convertImages_forgets_error:
  "convertImages h (w, s\<lparr>error := e\<rparr>) = convertImages h (w, s)"
  by (simp add: convertImages_def)

lemma downloadAllImages_error:
  "error (snd (downloadAllImages g (w, s))) =
     (if convertedImages s \<noteq> [] \<and> g (zip_entries (convertedImages s)) = None
      then Some ''Failed to create zip file for download.'' else error s)"
  by (simp add: downloadAllImages_def split_beta split: option.splits)

lemma batch3_partial:
  "convertImages (codec_failing [''b.heic'']) batch3 =
    (\<lparr>fresh = 11, created = [0, 1, 2, 3, 4, 5, 6, 7, 8, 9, 10], revoked = [], downloads = [],
      now = 0\<rparr>,
     \<lparr>heicFiles = heicFiles (snd batch3),
      convertedImages =
        [\<lparr>img_id = (''a.heic'', 0), img_name = ''a.jpeg'', img_url = 9,
           img_blob = \<lparr>btype = ''image/jpeg'', bdata = 1\<rparr>,
           img_originalFile = heic_file ''a.heic'' 1\<rparr>,
         \<lparr>img_id = (''c.HEIF'', 0), img_name = ''c.jpeg'', img_url = 10,
           img_blob = \<lparr>btype = ''image/jpeg'', bdata = 3\<rparr>,
           img_originalFile = heic_file ''c.HEIF'' 3\<rparr>],
      outputFormat = Jpeg, loading = False,
      error = Some ''Failed to convert b.heic. Please try again.''\<rparr>)"
  by (simp add: batch3_value run_defs name_defs)

text \<open>
  Claim C6 says that every operation, the download of the archive included, clears the
  error message when it starts. The code does otherwise on this run: a conversion in which
  \<^verbatim>\<open>b.heic\<close> fails leaves two converted images and the error message about \<^verbatim>\<open>b.heic\<close>;
  \<^verbatim>\<open>downloadAllImages\<close> then succeeds (the archive is handed to the browser for download) and
  the message about \<^verbatim>\<open>b.heic\<close> is still there.
\<close>

theorem download_keeps_stale_error:
  "error (snd (convertImages (codec_failing [''b.heic'']) batch3)) =
     Some ''Failed to convert b.heic. Please try again.'' \<and>
   map img_name (convertedImages (snd (convertImages (codec_failing [''b.heic'']) batch3))) =
     [''a.jpeg'', ''c.jpeg''] \<and>
   map fst (downloads (fst (downloadAllImages writer_ok
       (convertImages (codec_failing [''b.heic'']) batch3)))) = [''converted-images.zip''] \<and>
   error (snd (downloadAllImages writer_ok (convertImages (codec_failing [''b.heic'']) batch3))) =
     Some ''Failed to convert b.heic. Please try again.''"
  by (simp add: batch3_partial downloadAllImages_def writer_ok_def createObjectURL_def
      zip_entries_def)

text \<open>
  Clear All done twice gives the same browser and component state as Clear All done once:
  the second run finds both lists empty and makes no revoke call. The same holds when
  every Clear All is followed by the run of the effect's cleanup.
\<close>

lemma clear_idempotent:
  "clearAll (clearAll ws) = clearAll ws \<and>
   revoked (fst (clearAll (clearAll ws))) = revoked (fst (clearAll ws)) \<and>
   rendered_clear (rendered_clear ws) = rendered_clear ws"
proof -
  obtain w s where ws: "ws = (w, s)"
    by (cases ws)
  have once: "clearAll (clearAll (w, s)) = clearAll (w, s)"
    by (simp add: clearAll_result)
  have "rendered_clear (rendered_clear (w, s)) = rendered_clear (w, s)"
    by (simp add: rendered_clear_result)
  with once show ?thesis
    by (simp add: ws)
qed

text \<open>
  Claim C9 says that clearing twice is the same as clearing once, that the second clear
  revokes no handle, and that no handle is ever revoked twice. The first two hold, the
  third does not: after one file has been added and converted, a single Clear All revokes
  the thumbnail URL 2 and the image URL 3 in the handler (lines 178 and 180) and both again
  in the cleanup that the emptied lists cause. URL 3, which no earlier call had revoked,
  is in the log twice; a second Clear All then adds nothing.
\<close>

theorem clear_revokes_twice:
  "revoked (fst first_run) = [Some 2, Some 2] \<and>
   map img_url (convertedImages (snd first_run)) = [3] \<and>
   revoked (fst (rendered_clear first_run)) =
     [Some 2, Some 2, Some 2, Some 3, Some 2, Some 3] \<and>
   count_list (revoked (fst (rendered_clear first_run))) (Some 3) = 2 \<and>
   rendered_clear (rendered_clear first_run) = rendered_clear first_run"
proof -
  have log: "revoked (fst (rendered_clear first_run)) =
     [Some 2, Some 2, Some 2, Some 3, Some 2, Some 3]"
    by (simp add: first_run_value rendered_clear_result)
  have "rendered_clear (rendered_clear first_run) = rendered_clear first_run"
    using clear_idempotent [of first_run] by simp
  with log show ?thesis
    by (simp add: first_run_value)
qed

text \<open>
  Claim C10. When the converted list is empty \<^verbatim>\<open>downloadAllImages\<close> returns at once and
  changes nothing. When the list is not empty and the archive writer fails, the browser
  (its handles, logs and downloads) is unchanged and the component state differs from the
  one before only in the error message, now the message about the archive, and the loading
  flag, now off: both lists are as they were. The statement holds for both files, whose
  \<^verbatim>\<open>downloadAllImages\<close> are the same.
\<close>

theorem download_failure_keeps_state:
  "(convertedImages s = [] \<longrightarrow> downloadAllImages g (w, s) = (w, s)) \<and>
   (convertedImages s \<noteq> [] \<and> g (zip_entries (convertedImages s)) = None \<longrightarrow>
      downloadAllImages g (w, s) =
        (w, s\<lparr>error := Some ''Failed to create zip file for download.'', loading := False\<rparr>) \<and>
      heicFiles (snd (downloadAllImages g (w, s))) = heicFiles s \<and>
      convertedImages (snd (downloadAllImages g (w, s))) = convertedImages s)"
  by (simp add: downloadAllImages_def)

theorem download_failure_keeps_state_witness:
  "downloadAllImages writer_failing (browser0, initial :: item app_state) = (browser0, initial) \<and>
   convertedImages (snd (convertImages (codec_failing []) one_file)) \<noteq> [] \<and>
   writer_failing (zip_entries (convertedImages (snd (convertImages (codec_failing []) one_file)))) = None \<and>
   downloadAllImages writer_failing (convertImages (codec_failing []) one_file) =
     (fst (convertImages (codec_failing []) one_file),
      (snd (convertImages (codec_failing []) one_file))
        \<lparr>error := Some ''Failed to create zip file for download.'', loading := False\<rparr>)"
proof -
  have empty: "convertedImages (initial :: item app_state) = []"
    by (simp add: initial_def)
  have full: "convertedImages (snd (convertImages (codec_failing []) one_file)) \<noteq> []"
    by (simp add: one_file_converted)
  have fails: "writer_failing (zip_entries (convertedImages (snd (convertImages (codec_failing []) one_file)))) = None"
    by (simp add: writer_failing_def)
  from download_failure_keeps_state [of "initial :: item app_state" writer_failing browser0]
    download_failure_keeps_state [of "snd (convertImages (codec_failing []) one_file)" writer_failing
      "fst (convertImages (codec_failing []) one_file)"]
    empty full fails
  show ?thesis by simp
qed

end
